theory Spec2Isabelle
  imports Complex_Main
begin

section \<open>Exceptions and diagnostics\<close>

text \<open>
  The Python exceptions that the modelled code can raise. A computation that may raise
  returns \<open>error + 'a\<close>, with \<open>Inl\<close> for the exception.
\<close>

datatype error = IndexError | KeyError | TypeError | AttributeError | UnboundLocalError
  | ValueError | NotImplementedError

text \<open>
  The calls of the module's \<open>logger\<close>, kept as structured records in the order they
  are made.
\<close>

datatype level = DEBUG | WARNING | CRITICAL

datatype image_mode = RGBA | RGB | OtherImageMode string

datatype blend_mode = NORMAL | OtherBlendMode string

datatype diag =
    UnknownLayerType string
  | CroppingOverflow int int
  | Cropping
  | UnsupportedImageMode image_mode
  | BlendModeNotImplemented blend_mode

fun level_of :: "diag \<Rightarrow> level" where
  "level_of (UnknownLayerType k) = CRITICAL"
| "level_of (CroppingOverflow x y) = DEBUG"
| "level_of Cropping = DEBUG"
| "level_of (UnsupportedImageMode m) = WARNING"
| "level_of (BlendModeNotImplemented b) = WARNING"

section \<open>Geometry\<close>

datatype 'a BBox = BBox (x1: 'a) (y1: 'a) (x2: 'a) (y2: 'a)

definition width :: "'a::minus BBox \<Rightarrow> 'a" where
  "width b = x2 b - x1 b"

definition height :: "'a::minus BBox \<Rightarrow> 'a" where
  "height b = y2 b - y1 b"

datatype 'a Size = Size (size_width: 'a) (size_height: 'a)

section \<open>The decoded document\<close>

text \<open>
  Modelled from the spec: the identifiers of \<open>psd_tools.constants\<close> are not among the
  sources. Each identifier the module names (of \<open>TaggedBlock\<close>, \<open>PlacedLayerProperty\<close>,
  \<open>SzProperty\<close> and \<open>TextProperty\<close>, and \<open>BlendMode.NORMAL\<close> above) is a value of
  its own; every other key is \<open>OtherTaggedKey\<close> or \<open>OtherKey\<close>.
\<close>

datatype tagged_key =
    UNICODE_LAYER_NAME | LAYER_ID
  | VECTOR_MASK_SETTING1 | VECTOR_MASK_SETTING2
  | SMART_OBJECT_PLACED_LAYER_DATA | PLACED_LAYER_DATA
  | PLACED_LAYER_OBSOLETE1 | PLACED_LAYER_OBSOLETE2
  | TYPE_TOOL_OBJECT_SETTING | SECTION_DIVIDER_SETTING
  | OtherTaggedKey string

datatype dkey = TRANSFORM | SIZE | ID | WIDTH | HEIGHT | TXT | EngineData | OtherKey string

text \<open>
  A decoded number or string. A Python float is carried as the rational it denotes;
  no arithmetic of the model is done on it except through the parameter \<open>scale\<close> of
  the anchor extraction below.
\<close>

datatype atom = Str string | Num rat

text \<open>
  Values inside engine data: dictionaries (as association lists read by \<open>map_of\<close>),
  lists, integers and strings.
\<close>

datatype edata =
    EDict "(string \<times> edata) list"
  | EList "edata list"
  | EInt int
  | EStr string

text \<open>
  Decoded descriptor values: an object with a \<open>value\<close>, a list object with
  \<open>items\<close>, a descriptor object whose \<open>items\<close> are key/value pairs, and the parsed
  engine data of a type layer.
\<close>

datatype dval =
    Value atom
  | ListV "dval list"
  | Descriptor "(dkey \<times> dval) list"

text \<open>
  The parsed engine data of a type layer, read at the fixed keys the module uses:
  \<open>[EngineDict][Editor][Text]\<close>, \<open>[DocumentResources][FontSet]\<close>,
  \<open>[EngineDict][StyleRun][RunLengthArray]\<close> and, for each element of
  \<open>[EngineDict][StyleRun][RunArray]\<close>, its \<open>[StyleSheet][StyleSheetData]\<close>
  dictionary.
\<close>

record engine_data =
  ed_Text :: string
  ed_FontSet :: "edata list"
  ed_RunLengthArray :: "int list"
  ed_RunArray :: "(string \<times> edata) list list"

datatype tval = TextValue atom | EngineDict engine_data

text \<open>
  A path record of a vector mask: a dictionary that may hold a \<open>selector\<close> and an
  \<open>anchor\<close> (a pair of floats, vertical coordinate first).
\<close>

record path_record =
  selector :: "int option"
  anchor :: "(rat \<times> rat) option"

text \<open>
  The data of a tagged block: the item pairs of a placed-layer descriptor, a vector mask
  setting with its path, a type tool setting with the items of its text data, or bytes
  left undecoded.
\<close>

datatype block =
    Items "(dkey \<times> dval) list"
  | VectorMaskSetting "path_record list"
  | TypeToolObjectSetting "(dkey \<times> tval) list"
  | Bytes string

record mask_data =
  md_left :: int
  md_top :: int
  md_right :: int
  md_bottom :: int
  md_background_color :: int
  md_real_flags :: bool
  md_real_left :: int
  md_real_top :: int
  md_real_right :: int
  md_real_bottom :: int

record layer_record =
  info_name :: string
  info_left :: int
  info_top :: int
  info_right :: int
  info_bottom :: int
  info_visible :: bool
  info_opacity :: int
  info_blend_mode :: blend_mode
  info_mask_data :: "mask_data option"
  info_tagged_blocks :: "(tagged_key \<times> block) list"

record linked_layer =
  linked_unique_id :: atom
  linked_filename :: string

record psd =
  header_width :: int
  header_height :: int
  layer_records :: "layer_record list"
  linked_layers :: "linked_layer list"

text \<open>
  Python's \<open>dict(pairs)\<close>: of two pairs with one key the later one stays.
\<close>

definition dict :: "('k \<times> 'v) list \<Rightarrow> 'k \<rightharpoonup> 'v" where
  "dict ps = map_of (rev ps)"

section \<open>Layer objects\<close>

text \<open>
  A layer object holds its class, its index into the layer records and the reference to
  its parent, which was built before it and is never reassigned: the parent chain is a
  value of the object. The synthetic root group has no index (\<open>None\<close>).
\<close>

datatype cls = Group | AdjustmentLayer | PixelLayer | ShapeLayer | SmartObjectLayer
  | TypeLayer

datatype node = RootGroup | RawLayer (parent: node) (index: nat) (cls: cls)

fun index_of :: "node \<Rightarrow> nat option" where
  "index_of RootGroup = None"
| "index_of (RawLayer p i c) = Some i"

fun kind :: "node \<Rightarrow> string" where
  "kind RootGroup = ''group''"
| "kind (RawLayer p i Group) = ''group''"
| "kind (RawLayer p i AdjustmentLayer) = ''adjustment''"
| "kind (RawLayer p i PixelLayer) = ''pixel''"
| "kind (RawLayer p i ShapeLayer) = ''shape''"
| "kind (RawLayer p i SmartObjectLayer) = ''smartobject''"
| "kind (RawLayer p i TypeLayer) = ''type''"

text \<open>\<open>PSDImage._layer_info\<close>: \<open>layers[index]\<close>.\<close>

definition layer_info :: "psd \<Rightarrow> nat option \<Rightarrow> error + layer_record" where
  "layer_info d idx =
     (case idx of
        None \<Rightarrow> Inl TypeError
      | Some i \<Rightarrow>
          if i < length (layer_records d) then Inr (layer_records d ! i)
          else Inl IndexError)"

definition info :: "psd \<Rightarrow> node \<Rightarrow> error + layer_record" where
  "info d n = layer_info d (index_of n)"

definition tagged_blocks :: "psd \<Rightarrow> node \<Rightarrow> error + (tagged_key \<rightharpoonup> block)" where
  "tagged_blocks d n =
     (case info d n of Inl e \<Rightarrow> Inl e | Inr r \<Rightarrow> Inr (dict (info_tagged_blocks r)))"

fun visible :: "psd \<Rightarrow> node \<Rightarrow> error + bool" where
  "visible d RootGroup = Inr True"
| "visible d (RawLayer p i c) =
     (case info d (RawLayer p i c) of Inl e \<Rightarrow> Inl e | Inr r \<Rightarrow> Inr (info_visible r))"

text \<open>
  \<open>self.visible and self.parent.visible_global\<close>: the parent is asked only when the
  layer itself is visible. The root group overrides the property with \<open>True\<close>.
\<close>

fun visible_global :: "psd \<Rightarrow> node \<Rightarrow> error + bool" where
  "visible_global d RootGroup = Inr True"
| "visible_global d (RawLayer p i c) =
     (case visible d (RawLayer p i c) of
        Inl e \<Rightarrow> Inl e
      | Inr v \<Rightarrow> if v then visible_global d p else Inr False)"

definition opacity :: "psd \<Rightarrow> node \<Rightarrow> error + int" where
  "opacity d n = (case info d n of Inl e \<Rightarrow> Inl e | Inr r \<Rightarrow> Inr (info_opacity r))"

definition blend_mode :: "psd \<Rightarrow> node \<Rightarrow> error + blend_mode" where
  "blend_mode d n = (case info d n of Inl e \<Rightarrow> Inl e | Inr r \<Rightarrow> Inr (info_blend_mode r))"

text \<open>
  \<open>True if self._index and self._info.mask_data else False\<close>: the index is tested for
  truth, so \<open>None\<close> and \<open>0\<close> both end the test before the record is read.
\<close>

definition has_mask :: "psd \<Rightarrow> node \<Rightarrow> error + bool" where
  "has_mask d n =
     (case index_of n of
        None \<Rightarrow> Inr False
      | Some i \<Rightarrow>
          if i = 0 then Inr False
          else (case info d n of
                  Inl e \<Rightarrow> Inl e
                | Inr r \<Rightarrow> Inr (info_mask_data r \<noteq> None)))"

datatype Mask = Mask (mask_mask_data: "mask_data option") (mask_layer_index: "nat option")

definition mask :: "psd \<Rightarrow> node \<Rightarrow> error + Mask option" where
  "mask d n =
     (case has_mask d n of
        Inl e \<Rightarrow> Inl e
      | Inr False \<Rightarrow> Inr None
      | Inr True \<Rightarrow>
          (case info d n of
             Inl e \<Rightarrow> Inl e
           | Inr r \<Rightarrow> Inr (Some (Mask (info_mask_data r) (index_of n)))))"

section \<open>The layer tree\<close>

text \<open>
  What a constructor caches on the object beside the fields of every layer:
  \<open>SmartObjectLayer._placed\<close> (the pairs given to \<open>dict\<close>, or \<open>None\<close>) and
  \<open>TypeLayer.text_data\<close>.
\<close>

datatype extra =
    NoExtra
  | Placed "(dkey \<times> dval) list option"
  | TextData "(dkey \<times> tval) list"

datatype layer =
  Layer (node: node) (extra: extra) (layers: "layer list") (clip_layers: "layer list")

fun is_group :: "node \<Rightarrow> bool" where
  "is_group RootGroup = True"
| "is_group (RawLayer p i c) = (c = Group)"

section \<open>Bounding boxes\<close>

definition literal_bbox :: "layer_record \<Rightarrow> int BBox" where
  "literal_bbox r = BBox (info_left r) (info_top r) (info_right r) (info_bottom r)"

text \<open>\<open>_VisibleLayer.bbox\<close>\<close>

definition visible_layer_bbox :: "psd \<Rightarrow> node \<Rightarrow> error + int BBox" where
  "visible_layer_bbox d n =
     (case info d n of Inl e \<Rightarrow> Inl e | Inr r \<Rightarrow> Inr (literal_bbox r))"

text \<open>\<open>ShapeLayer._is_sizeless\<close>\<close>

definition is_sizeless :: "psd \<Rightarrow> node \<Rightarrow> error + bool" where
  "is_sizeless d n =
     (case info d n of
        Inl e \<Rightarrow> Inl e
      | Inr r \<Rightarrow> Inr (width (literal_bbox r) = 0 \<or> height (literal_bbox r) = 0))"

text \<open>Python's truth value of a block: a sequence is true when it is not empty.\<close>

fun block_truthy :: "block \<Rightarrow> bool" where
  "block_truthy (Items ps) = (ps \<noteq> [])"
| "block_truthy (VectorMaskSetting path) = True"
| "block_truthy (TypeToolObjectSetting t) = True"
| "block_truthy (Bytes s) = (s \<noteq> [])"

definition on_curve :: "int option \<Rightarrow> bool" where
  "on_curve s = (s = Some 1 \<or> s = Some 2 \<or> s = Some 4 \<or> s = Some 5)"

text \<open>
  The list comprehension of \<open>ShapeLayer.anchors\<close>. The parameter \<open>scale a n\<close> stands
  for Python's \<open>int(a * n)\<close> on a float \<open>a\<close> and an integer \<open>n\<close>: the floating-point
  product, truncated.
\<close>

fun anchor_points ::
  "(rat \<Rightarrow> int \<Rightarrow> int) \<Rightarrow> psd \<Rightarrow> path_record list \<Rightarrow> error + (int \<times> int) list" where
  "anchor_points scale d [] = Inr []"
| "anchor_points scale d (p # ps) =
     (if on_curve (selector p) then
        (case anchor p of
           None \<Rightarrow> Inl KeyError
         | Some a \<Rightarrow>
             (case anchor_points scale d ps of
                Inl e \<Rightarrow> Inl e
              | Inr r \<Rightarrow>
                  Inr ((scale (snd a) (header_width d), scale (fst a) (header_height d)) # r)))
      else anchor_points scale d ps)"

text \<open>\<open>blocks.get(VECTOR_MASK_SETTING1, blocks.get(VECTOR_MASK_SETTING2))\<close>\<close>

definition vector_mask :: "(tagged_key \<rightharpoonup> block) \<Rightarrow> block option" where
  "vector_mask blocks =
     (case blocks VECTOR_MASK_SETTING1 of
        Some v \<Rightarrow> Some v
      | None \<Rightarrow> blocks VECTOR_MASK_SETTING2)"

definition anchors ::
  "(rat \<Rightarrow> int \<Rightarrow> int) \<Rightarrow> psd \<Rightarrow> node \<Rightarrow> error + (int \<times> int) list option" where
  "anchors scale d n =
     (case tagged_blocks d n of
        Inl e \<Rightarrow> Inl e
      | Inr blocks \<Rightarrow>
          (case vector_mask blocks of
             None \<Rightarrow> Inr None
           | Some v \<Rightarrow>
               if \<not> block_truthy v then Inr None
               else (case v of
                       VectorMaskSetting path \<Rightarrow>
                         (case anchor_points scale d path of
                            Inl e \<Rightarrow> Inl e
                          | Inr ps \<Rightarrow> Inr (Some ps))
                     | _ \<Rightarrow> Inl AttributeError)))"

text \<open>Python's \<open>min\<close> and \<open>max\<close> of a sequence.\<close>

definition py_min :: "int list \<Rightarrow> error + int" where
  "py_min xs = (case xs of [] \<Rightarrow> Inl ValueError | x # r \<Rightarrow> Inr (fold min r x))"

definition py_max :: "int list \<Rightarrow> error + int" where
  "py_max xs = (case xs of [] \<Rightarrow> Inl ValueError | x # r \<Rightarrow> Inr (fold max r x))"

definition envelope :: "int list \<Rightarrow> int list \<Rightarrow> int list \<Rightarrow> int list \<Rightarrow> error + int BBox" where
  "envelope lefts tops rights bottoms =
     (case py_min lefts of Inl e \<Rightarrow> Inl e | Inr a \<Rightarrow>
      case py_min tops of Inl e \<Rightarrow> Inl e | Inr b \<Rightarrow>
      case py_max rights of Inl e \<Rightarrow> Inl e | Inr c \<Rightarrow>
      case py_max bottoms of Inl e \<Rightarrow> Inl e | Inr d \<Rightarrow> Inr (BBox a b c d))"

text \<open>\<open>ShapeLayer.bbox\<close>\<close>

definition shape_bbox :: "(rat \<Rightarrow> int \<Rightarrow> int) \<Rightarrow> psd \<Rightarrow> node \<Rightarrow> error + int BBox" where
  "shape_bbox scale d n =
     (case is_sizeless d n of
        Inl e \<Rightarrow> Inl e
      | Inr False \<Rightarrow> visible_layer_bbox d n
      | Inr True \<Rightarrow>
          (case anchors scale d n of
             Inl e \<Rightarrow> Inl e
           | Inr None \<Rightarrow> Inr (BBox 0 0 0 0)
           | Inr (Some ps) \<Rightarrow>
               if ps = [] \<or> length ps < 2 then Inr (BBox 0 0 0 0)
               else envelope (map fst ps) (map snd ps) (map fst ps) (map snd ps)))"

text \<open>
  The list comprehension of \<open>combined_bbox\<close> over the values of \<open>layer.bbox\<close>, taken
  in order: the first exception ends it; a box stays when it is not \<open>None\<close> and its
  width and height are positive.
\<close>

fun surviving :: "(error + int BBox option) list \<Rightarrow> error + int BBox list" where
  "surviving [] = Inr []"
| "surviving (r # rs) =
     (case r of
        Inl e \<Rightarrow> Inl e
      | Inr b \<Rightarrow>
          (case surviving rs of
             Inl e \<Rightarrow> Inl e
           | Inr bs \<Rightarrow>
               Inr (case b of
                      None \<Rightarrow> bs
                    | Some bb \<Rightarrow> if 0 < width bb \<and> 0 < height bb then bb # bs else bs)))"

definition combine :: "(error + int BBox option) list \<Rightarrow> error + int BBox option" where
  "combine rs =
     (case surviving rs of
        Inl e \<Rightarrow> Inl e
      | Inr bboxes \<Rightarrow>
          if bboxes = [] then Inr None
          else (case envelope (map x1 bboxes) (map y1 bboxes) (map x2 bboxes) (map y2 bboxes) of
                  Inl e \<Rightarrow> Inl e
                | Inr b \<Rightarrow> Inr (Some b)))"

text \<open>
  The property \<open>bbox\<close> of a layer object, by class: \<open>Group.bbox\<close> is \<open>combined_bbox\<close> of
  the children and may be \<open>None\<close>; \<open>ShapeLayer.bbox\<close>; \<open>_VisibleLayer.bbox\<close> for the
  other classes.
\<close>

fun bbox :: "(rat \<Rightarrow> int \<Rightarrow> int) \<Rightarrow> psd \<Rightarrow> layer \<Rightarrow> error + int BBox option" where
  "bbox scale d (Layer n ex ls cs) =
     (if is_group n then combine (map (bbox scale d) ls)
      else if cls n = ShapeLayer then
        (case shape_bbox scale d n of Inl e \<Rightarrow> Inl e | Inr b \<Rightarrow> Inr (Some b))
      else
        (case visible_layer_bbox d n of Inl e \<Rightarrow> Inl e | Inr b \<Rightarrow> Inr (Some b)))"

text \<open>
  An element of a list of layers is a layer object or \<open>None\<close>; reading \<open>bbox\<close> of
  \<open>None\<close> raises.
\<close>

definition bbox_of :: "(rat \<Rightarrow> int \<Rightarrow> int) \<Rightarrow> psd \<Rightarrow> layer option \<Rightarrow> error + int BBox option" where
  "bbox_of scale d l = (case l of None \<Rightarrow> Inl AttributeError | Some x \<Rightarrow> bbox scale d x)"

definition combined_bbox ::
  "(rat \<Rightarrow> int \<Rightarrow> int) \<Rightarrow> psd \<Rightarrow> layer option list \<Rightarrow> error + int BBox option" where
  "combined_bbox scale d ls = combine (map (bbox_of scale d) ls)"

section \<open>Smart object layers\<close>

text \<open>
  \<open>SmartObjectLayer._placed_layer_block\<close>: nested \<open>blocks.get(key, default)\<close>, so the
  first key that is present gives the block.
\<close>

definition placed_layer_block :: "psd \<Rightarrow> node \<Rightarrow> error + block option" where
  "placed_layer_block d n =
     (case tagged_blocks d n of
        Inl e \<Rightarrow> Inl e
      | Inr blocks \<Rightarrow>
          Inr (case blocks SMART_OBJECT_PLACED_LAYER_DATA of
                 Some b \<Rightarrow> Some b
               | None \<Rightarrow>
                   (case blocks PLACED_LAYER_DATA of
                      Some b \<Rightarrow> Some b
                    | None \<Rightarrow>
                        (case blocks PLACED_LAYER_OBSOLETE1 of
                           Some b \<Rightarrow> Some b
                         | None \<Rightarrow> blocks PLACED_LAYER_OBSOLETE2))))"

text \<open>
  \<open>dict(placed_block)\<close>: the block has to be a sequence of pairs. The other blocks
  are sequences whose first element is a number, which \<open>dict\<close> cannot take for a pair:
  \<open>TypeError\<close>.
\<close>

fun dict_of_block :: "block \<Rightarrow> error + (dkey \<times> dval) list" where
  "dict_of_block (Items ps) = Inr ps"
| "dict_of_block (VectorMaskSetting path) = Inl TypeError"
| "dict_of_block (TypeToolObjectSetting t) = Inl TypeError"
| "dict_of_block (Bytes s) = Inl TypeError"

text \<open>\<open>SmartObjectLayer.__init__\<close>\<close>

definition SmartObjectLayer_init :: "psd \<Rightarrow> node \<Rightarrow> nat \<Rightarrow> error + layer" where
  "SmartObjectLayer_init d grp i =
     (case placed_layer_block d (RawLayer grp i SmartObjectLayer) of
        Inl e \<Rightarrow> Inl e
      | Inr None \<Rightarrow> Inr (Layer (RawLayer grp i SmartObjectLayer) (Placed None) [] [])
      | Inr (Some b) \<Rightarrow>
          if block_truthy b then
            (case dict_of_block b of
               Inl e \<Rightarrow> Inl e
             | Inr ps \<Rightarrow> Inr (Layer (RawLayer grp i SmartObjectLayer) (Placed (Some ps)) [] []))
          else Inr (Layer (RawLayer grp i SmartObjectLayer) (Placed None) [] []))"

text \<open>The attribute \<open>value\<close> of a decoded object.\<close>

fun value_of :: "dval \<Rightarrow> error + atom" where
  "value_of (Value a) = Inr a"
| "value_of (ListV xs) = Inl AttributeError"
| "value_of (Descriptor ps) = Inl AttributeError"

text \<open>
  \<open>SmartObjectLayer.unique_id\<close>: \<open>self._placed.get(ID).value\<close> when \<open>_placed\<close> is a
  non-empty dictionary. The attribute \<open>_placed\<close> exists on smart object layers only.
\<close>

definition unique_id :: "layer \<Rightarrow> error + atom option" where
  "unique_id l =
     (case extra l of
        Placed None \<Rightarrow> Inr None
      | Placed (Some ps) \<Rightarrow>
          if ps = [] then Inr None
          else (case dict ps ID of
                  None \<Rightarrow> Inl AttributeError
                | Some v \<Rightarrow> (case value_of v of Inl e \<Rightarrow> Inl e | Inr a \<Rightarrow> Inr (Some a)))
      | _ \<Rightarrow> Inl AttributeError)"

datatype Embedded = Embedded linked_layer

text \<open>\<open>PSDImage.embedded\<close>: the dictionary comprehension over the linked layers.\<close>

definition embedded :: "psd \<Rightarrow> atom \<rightharpoonup> Embedded" where
  "embedded d = dict (map (\<lambda>linked. (linked_unique_id linked, Embedded linked)) (linked_layers d))"

fun atom_truthy :: "atom \<Rightarrow> bool" where
  "atom_truthy (Str s) = (s \<noteq> [])"
| "atom_truthy (Num q) = (q \<noteq> 0)"

definition linked_data :: "psd \<Rightarrow> layer \<Rightarrow> error + Embedded option" where
  "linked_data d l =
     (case unique_id l of
        Inl e \<Rightarrow> Inl e
      | Inr None \<Rightarrow> Inr None
      | Inr (Some u) \<Rightarrow> if atom_truthy u then Inr (embedded d u) else Inr None)"

text \<open>\<open>xs[k].value\<close>\<close>

definition elem_value :: "dval list \<Rightarrow> nat \<Rightarrow> error + atom" where
  "elem_value xs k = (if k < length xs then value_of (xs ! k) else Inl IndexError)"

text \<open>
  \<open>SmartObjectLayer.transform_bbox\<close>. \<open>PlacedLayerData.transform\<close> is
  \<open>self._info[TRANSFORM].items\<close>; the elements of a descriptor's \<open>items\<close> are pairs,
  which have no \<open>value\<close>.
\<close>

definition transform_bbox :: "psd \<Rightarrow> node \<Rightarrow> error + atom BBox option" where
  "transform_bbox d n =
     (case placed_layer_block d n of
        Inl e \<Rightarrow> Inl e
      | Inr None \<Rightarrow> Inr None
      | Inr (Some b) \<Rightarrow>
          if \<not> block_truthy b then Inr None
          else
            (case dict_of_block b of
               Inl e \<Rightarrow> Inl e
             | Inr ps \<Rightarrow>
                 (case dict ps TRANSFORM of
                    None \<Rightarrow> Inl KeyError
                  | Some (Value a) \<Rightarrow> Inl AttributeError
                  | Some (Descriptor prs) \<Rightarrow> if prs = [] then Inr None else Inl AttributeError
                  | Some (ListV transform) \<Rightarrow>
                      if transform = [] then Inr None
                      else
                        (case elem_value transform 0 of Inl e \<Rightarrow> Inl e | Inr a \<Rightarrow>
                         case elem_value transform 1 of Inl e \<Rightarrow> Inl e | Inr b \<Rightarrow>
                         case elem_value transform 4 of Inl e \<Rightarrow> Inl e | Inr c \<Rightarrow>
                         case elem_value transform 5 of Inl e \<Rightarrow> Inl e | Inr d \<Rightarrow>
                           Inr (Some (BBox a b c d))))))"

text \<open>\<open>size[key].value\<close> on the dictionary \<open>size\<close>\<close>

definition item_value :: "(dkey \<times> dval) list \<Rightarrow> dkey \<Rightarrow> error + atom" where
  "item_value ps k = (case dict ps k of None \<Rightarrow> Inl KeyError | Some v \<Rightarrow> value_of v)"

text \<open>
  \<open>SmartObjectLayer.placed_layer_size\<close>. \<open>PlacedLayerData.size\<close> is
  \<open>dict(self._info[SIZE].items)\<close>: of a list object's items \<open>dict\<close> can be built only
  when there is none; a decoded object is a sequence of one field, where a pair is asked
  for: \<open>ValueError\<close>.
\<close>

definition placed_layer_size :: "psd \<Rightarrow> node \<Rightarrow> error + atom Size option" where
  "placed_layer_size d n =
     (case placed_layer_block d n of
        Inl e \<Rightarrow> Inl e
      | Inr None \<Rightarrow> Inr None
      | Inr (Some b) \<Rightarrow>
          if \<not> block_truthy b then Inr None
          else
            (case dict_of_block b of
               Inl e \<Rightarrow> Inl e
             | Inr ps \<Rightarrow>
                 (case dict ps SIZE of
                    None \<Rightarrow> Inl KeyError
                  | Some (Value a) \<Rightarrow> Inl AttributeError
                  | Some (ListV xs) \<Rightarrow> if xs = [] then Inr None else Inl ValueError
                  | Some (Descriptor sz) \<Rightarrow>
                      if sz = [] then Inr None
                      else
                        (case item_value sz WIDTH of Inl e \<Rightarrow> Inl e | Inr w \<Rightarrow>
                         case item_value sz HEIGHT of Inl e \<Rightarrow> Inl e | Inr h \<Rightarrow>
                           Inr (Some (Size w h))))))"

section \<open>Type layers\<close>

text \<open>
  \<open>TypeLayer.__init__\<close>: \<open>dict(self._type_info.text_data.items)\<close> of the type tool
  block; without the block \<open>_type_info\<close> is \<open>None\<close>, which has no \<open>text_data\<close>.
\<close>

definition TypeLayer_init :: "psd \<Rightarrow> node \<Rightarrow> nat \<Rightarrow> error + layer" where
  "TypeLayer_init d grp i =
     (case tagged_blocks d (RawLayer grp i TypeLayer) of
        Inl e \<Rightarrow> Inl e
      | Inr blocks \<Rightarrow>
          (case blocks TYPE_TOOL_OBJECT_SETTING of
             Some (TypeToolObjectSetting td) \<Rightarrow>
               Inr (Layer (RawLayer grp i TypeLayer) (TextData td) [] [])
           | _ \<Rightarrow> Inl AttributeError))"

text \<open>
  The engine data as the properties subscript it: \<open>self.text_data.get(b'EngineData')\<close>
  has to be the parsed dictionary; \<open>None\<close> and a decoded object cannot be subscripted.
\<close>

definition engine_data :: "layer \<Rightarrow> error + engine_data" where
  "engine_data l =
     (case extra l of
        TextData td \<Rightarrow>
          (case dict td EngineData of
             Some (EngineDict e) \<Rightarrow> Inr e
           | _ \<Rightarrow> Inl TypeError)
      | _ \<Rightarrow> Inl AttributeError)"

text \<open>
  Python's \<open>text[a:b]\<close>: a negative bound counts from the end, and both bounds are
  brought into the range of the sequence.
\<close>

definition slice_bound :: "nat \<Rightarrow> int \<Rightarrow> nat" where
  "slice_bound n a = (if a < 0 then nat (max (a + int n) 0) else min (nat a) n)"

definition py_slice :: "'a list \<Rightarrow> int \<Rightarrow> int \<Rightarrow> 'a list" where
  "py_slice xs a b =
     take (slice_bound (length xs) b - slice_bound (length xs) a)
          (drop (slice_bound (length xs) a) xs)"

text \<open>Python's \<open>xs[k]\<close> on a list: a negative index counts from the end.\<close>

definition py_getitem :: "'a list \<Rightarrow> int \<Rightarrow> error + 'a" where
  "py_getitem xs k =
     (if k < 0 then
        (if - k \<le> int (length xs) then Inr (xs ! nat (int (length xs) + k)) else Inl IndexError)
      else if k < int (length xs) then Inr (xs ! nat k)
      else Inl IndexError)"

text \<open>
  \<open>fontset[stylesheet.get(b'Font', 0)]\<close>: a dictionary of engine data is read by
  \<open>map_of\<close> (the first pair with the key counts); a list is indexed by integers only.
\<close>

definition font_index :: "(string \<times> edata) list \<Rightarrow> error + int" where
  "font_index stylesheet =
     (case map_of stylesheet ''Font'' of
        None \<Rightarrow> Inr 0
      | Some (EInt k) \<Rightarrow> Inr k
      | Some _ \<Rightarrow> Inl TypeError)"

text \<open>
  The loop of \<open>TypeLayer.style_spans\<close> over \<open>zip(runarray, runlength)\<close> with the running
  offset \<open>start\<close>. Item assignment on the copied style sheet puts the new pair in front.
\<close>

fun spans_loop ::
  "string \<Rightarrow> edata list \<Rightarrow> ((string \<times> edata) list \<times> int) list \<Rightarrow> int \<Rightarrow>
   error + (string \<times> edata) list list" where
  "spans_loop text fontset [] start = Inr []"
| "spans_loop text fontset ((run, sz) # rest) start =
     (case font_index ((''Text'', EStr (py_slice text start (start + sz))) # run) of
        Inl e \<Rightarrow> Inl e
      | Inr k \<Rightarrow>
          (case py_getitem fontset k of
             Inl e \<Rightarrow> Inl e
           | Inr font \<Rightarrow>
               (case spans_loop text fontset rest (start + sz) of
                  Inl e \<Rightarrow> Inl e
                | Inr spans \<Rightarrow>
                    Inr (((''Font'', font) #
                          (''Text'', EStr (py_slice text start (start + sz))) # run) # spans))))"

definition style_spans :: "layer \<Rightarrow> error + (string \<times> edata) list list" where
  "style_spans l =
     (case engine_data l of
        Inl e \<Rightarrow> Inl e
      | Inr e \<Rightarrow>
          spans_loop (ed_Text e) (ed_FontSet e) (zip (ed_RunArray e) (ed_RunLengthArray e)) 0)"

section \<open>Tree assembly\<close>

text \<open>
  A record of the nested description that \<open>group_layers\<close> hands to \<open>PSDImage.__init__\<close>:
  \<open>index\<close>, \<open>kind\<close>, \<open>layers\<close> and \<open>clip_layers\<close>.
\<close>

datatype desc =
  Desc (d_index: nat) (d_kind: string) (d_layers: "desc list") (d_clip_layers: "desc list")

text \<open>
  \<open>make_layer\<close> and \<open>fill_group\<close> of \<open>PSDImage.__init__\<close>, with the diagnostics logged so
  far beside the result. After the last \<open>else\<close> the local \<open>child\<close> is unbound, and
  \<open>return child\<close> raises. \<open>fill_group\<close> returns the children appended to the group;
  \<open>make_clips\<close> is its inner loop over \<open>layer['clip_layers']\<close>.
\<close>

fun make_layer :: "psd \<Rightarrow> node \<Rightarrow> desc \<Rightarrow> diag list \<times> (error + layer)"
  and fill_group :: "psd \<Rightarrow> node \<Rightarrow> desc list \<Rightarrow> diag list \<times> (error + layer list)"
  and make_clips :: "psd \<Rightarrow> node \<Rightarrow> desc list \<Rightarrow> diag list \<times> (error + layer list)" where
  "make_layer d grp (Desc i k ls cs) =
     (if k = ''group'' then
        (case fill_group d (RawLayer grp i Group) ls of
           (dg, Inl e) \<Rightarrow> (dg, Inl e)
         | (dg, Inr children) \<Rightarrow> (dg, Inr (Layer (RawLayer grp i Group) NoExtra children [])))
      else if k = ''adjustment'' then
        ([], Inr (Layer (RawLayer grp i AdjustmentLayer) NoExtra [] []))
      else if k = ''type'' then ([], TypeLayer_init d grp i)
      else if k = ''shape'' then ([], Inr (Layer (RawLayer grp i ShapeLayer) NoExtra [] []))
      else if k = ''pixel'' then ([], Inr (Layer (RawLayer grp i PixelLayer) NoExtra [] []))
      else if k = ''smartobject'' then ([], SmartObjectLayer_init d grp i)
      else ([UnknownLayerType k], Inl UnboundLocalError))"
| "fill_group d grp [] = ([], Inr [])"
| "fill_group d grp (Desc i k ls cs # xs) =
     (case make_layer d grp (Desc i k ls cs) of
        (dg1, Inl e) \<Rightarrow> (dg1, Inl e)
      | (dg1, Inr child) \<Rightarrow>
          (case make_clips d grp cs of
             (dg2, Inl e) \<Rightarrow> (dg1 @ dg2, Inl e)
           | (dg2, Inr clips) \<Rightarrow>
               (case fill_group d grp xs of
                  (dg3, Inl e) \<Rightarrow> (dg1 @ dg2 @ dg3, Inl e)
                | (dg3, Inr children) \<Rightarrow>
                    (dg1 @ dg2 @ dg3,
                     Inr (Layer (node child) (extra child) (layers child)
                            (clip_layers child @ clips) # children)))))"
| "make_clips d grp [] = ([], Inr [])"
| "make_clips d grp (c # cs) =
     (case make_layer d grp c of
        (dg1, Inl e) \<Rightarrow> (dg1, Inl e)
      | (dg1, Inr clip) \<Rightarrow>
          (case make_clips d grp cs of
             (dg2, Inl e) \<Rightarrow> (dg1 @ dg2, Inl e)
           | (dg2, Inr clips) \<Rightarrow> (dg1 @ dg2, Inr (clip # clips))))"

text \<open>
  The tree part of \<open>PSDImage.__init__\<close>: the root group filled from the description
  \<open>group_layers(decoded_data)\<close>, which is the argument \<open>data\<close>.
\<close>

definition PSDImage_init :: "psd \<Rightarrow> desc list \<Rightarrow> diag list \<times> (error + layer)" where
  "PSDImage_init d data =
     (case fill_group d RootGroup data of
        (dg, Inl e) \<Rightarrow> (dg, Inl e)
      | (dg, Inr children) \<Rightarrow> (dg, Inr (Layer RootGroup NoExtra children [])))"

section \<open>Compositing\<close>

text \<open>
  The collaborators of \<open>merge_layers\<close>, which are not among the sources, as parameters:
  the operations of the image library on images (\<open>Image.new("RGBA", size, color=(255,
  255, 255, 0))\<close>, \<open>size\<close>, \<open>mode\<close>, \<open>crop\<close>, \<open>paste\<close>, which changes the image it is
  called on and here returns the changed image, \<open>Image.alpha_composite\<close>), and the
  two calls that may be handed or may hand back \<open>None\<close>: \<open>pil_support.apply_opacity\<close>
  and \<open>layer.as_PIL()\<close> of a layer that is not a group.
\<close>

record 'img pil =
  new_rgba :: "int \<times> int \<Rightarrow> 'img"
  img_size :: "'img \<Rightarrow> int \<times> int"
  img_mode :: "'img \<Rightarrow> image_mode"
  crop :: "'img \<Rightarrow> int \<times> int \<times> int \<times> int \<Rightarrow> 'img"
  paste :: "'img \<Rightarrow> 'img \<Rightarrow> int \<times> int \<Rightarrow> 'img"
  alpha_composite :: "'img \<Rightarrow> 'img \<Rightarrow> 'img"
  apply_opacity :: "'img option \<Rightarrow> int \<Rightarrow> error + 'img option"
  as_PIL :: "psd \<Rightarrow> layer \<Rightarrow> error + 'img option"

text \<open>
  The three tests at the head of the loop body, in their order; \<open>True\<close> stands for
  \<open>continue\<close>. The bbox of a group without a sized child is \<open>None\<close>, which has no
  \<open>width\<close>.
\<close>

definition skip_checks ::
  "(rat \<Rightarrow> int \<Rightarrow> int) \<Rightarrow> psd \<Rightarrow> bool \<Rightarrow> (layer \<Rightarrow> bool) \<Rightarrow> layer \<Rightarrow> error + bool" where
  "skip_checks scale d respect_visibility skip_layer l =
     (case bbox scale d l of
        Inl e \<Rightarrow> Inl e
      | Inr None \<Rightarrow> Inl AttributeError
      | Inr (Some b) \<Rightarrow>
          if width b = 0 \<and> height b = 0 then Inr True
          else if skip_layer l then Inr True
          else (case visible d (node l) of
                  Inl e \<Rightarrow> Inl e
                | Inr v \<Rightarrow> Inr (\<not> v \<and> respect_visibility)))"

text \<open>
  The crop of the part that hangs over the top or left edge: the image to place and its
  offset.
\<close>

definition crop_overflow ::
  "'img pil \<Rightarrow> 'img \<Rightarrow> int \<Rightarrow> int \<Rightarrow> diag list \<times> 'img \<times> int \<times> int" where
  "crop_overflow lib layer_image x y =
     (if x < 0 \<or> y < 0 then
        ([CroppingOverflow (- min x 0) (- min y 0)],
         crop lib layer_image
           (- min x 0, - min y 0, fst (img_size lib layer_image), snd (img_size lib layer_image)),
         x + (- min x 0), y + (- min y 0))
      else ([], layer_image, x, y))"

text \<open>The last \<open>if\<close> of the loop body: the blend onto \<open>result\<close>.\<close>

definition blend ::
  "'img pil \<Rightarrow> blend_mode \<Rightarrow> 'img \<Rightarrow> 'img \<Rightarrow> int \<times> int \<Rightarrow> diag list \<times> 'img" where
  "blend lib bm result layer_image pos =
     (if bm = NORMAL then
        (if img_mode lib layer_image = RGBA then
           ([], alpha_composite lib result
                  (paste lib (new_rgba lib (img_size lib result)) layer_image pos))
         else if img_mode lib layer_image = RGB then
           ([], paste lib result layer_image pos)
         else ([UnsupportedImageMode (img_mode lib layer_image)], result))
      else ([BlendModeNotImplemented bm], result))"

text \<open>
  The loop body from \<open>apply_opacity\<close> on, for the image \<open>raw\<close> obtained for the layer:
  the new \<open>result\<close>.
\<close>

definition compose_layer ::
  "'img pil \<Rightarrow> (rat \<Rightarrow> int \<Rightarrow> int) \<Rightarrow> psd \<Rightarrow> int BBox \<Rightarrow> 'img \<Rightarrow> layer \<Rightarrow> 'img option \<Rightarrow>
   diag list \<times> (error + 'img)" where
  "compose_layer lib scale d bb result l raw =
     (case opacity d (node l) of
        Inl e \<Rightarrow> ([], Inl e)
      | Inr op \<Rightarrow>
      (case apply_opacity lib raw op of
         Inl e \<Rightarrow> ([], Inl e)
       | Inr layer_image \<Rightarrow>
       (case bbox scale d l of
          Inl e \<Rightarrow> ([], Inl e)
        | Inr None \<Rightarrow> ([], Inl AttributeError)
        | Inr (Some b) \<Rightarrow>
        (case layer_image of
           None \<Rightarrow> ([], Inl AttributeError)
         | Some im \<Rightarrow>
         (case crop_overflow lib im (x1 b - x1 bb) (y1 b - y1 bb) of
            (dg1, im', x, y) \<Rightarrow>
            (case blend_mode d (node l) of
               Inl e \<Rightarrow>
                 (dg1 @ (if fst (img_size lib im) + x > width bb \<or>
                           snd (img_size lib im) + y > height bb then [Cropping] else []),
                  Inl e)
             | Inr bm \<Rightarrow>
                 (dg1 @ (if fst (img_size lib im) + x > width bb \<or>
                           snd (img_size lib im) + y > height bb then [Cropping] else [])
                      @ fst (blend lib bm result im' (x, y)),
                  Inr (snd (blend lib bm result im' (x, y))))))))))"

text \<open>The measure of the recursion of \<open>merge_layers\<close>.\<close>

fun tsize :: "layer \<Rightarrow> nat" where
  "tsize (Layer n ex ls cs) = Suc (Suc (sum_list (map tsize ls)))"

definition weight :: "layer option list \<Rightarrow> nat" where
  "weight ls = sum_list (map (\<lambda>l. case l of None \<Rightarrow> 1 | Some x \<Rightarrow> tsize x) ls)"

lemma weight_rev: "weight (rev ls) = weight ls"
  by (simp add: weight_def rev_map [symmetric])

lemma weight_children: "weight (map Some (layers l)) < tsize l"
  by (cases l) (simp add: weight_def comp_def)

lemma weight_children_less:
  "Suc (2 * weight (map Some (layers l))) < 2 * tsize l + 2 * weight ls"
  using weight_children [of l] by simp

lemma weight_Cons_None: "weight (None # ls) = Suc (weight ls)"
  by (simp add: weight_def)

lemma weight_Cons_Some: "weight (Some l # ls) = tsize l + weight ls"
  by (simp add: weight_def)

lemma tsize_pos: "0 < tsize l"
  by (cases l) simp

text \<open>
  \<open>merge_layers\<close>, and its loop \<open>merge_loop\<close> over \<open>reversed(layers)\<close> with the canvas
  \<open>result\<close>. The raster of a group is the merge of its children, with no target box.
\<close>

function merge_layers ::
    "'img pil \<Rightarrow> (rat \<Rightarrow> int \<Rightarrow> int) \<Rightarrow> psd \<Rightarrow> layer option list \<Rightarrow> bool \<Rightarrow> (layer \<Rightarrow> bool) \<Rightarrow>
     int BBox option \<Rightarrow> diag list \<times> (error + 'img option)"
  and merge_loop ::
    "'img pil \<Rightarrow> (rat \<Rightarrow> int \<Rightarrow> int) \<Rightarrow> psd \<Rightarrow> layer option list \<Rightarrow> bool \<Rightarrow> (layer \<Rightarrow> bool) \<Rightarrow>
     int BBox \<Rightarrow> 'img \<Rightarrow> diag list \<times> (error + 'img)" where
  "merge_layers lib scale d ls respect_visibility skip_layer target =
     (case (case target of None \<Rightarrow> combined_bbox scale d ls | Some b \<Rightarrow> Inr (Some b)) of
        Inl e \<Rightarrow> ([], Inl e)
      | Inr None \<Rightarrow> ([], Inr None)
      | Inr (Some bb) \<Rightarrow>
          (case merge_loop lib scale d (rev ls) respect_visibility skip_layer bb
                  (new_rgba lib (width bb, height bb)) of
             (dg, Inl e) \<Rightarrow> (dg, Inl e)
           | (dg, Inr result) \<Rightarrow> (dg, Inr (Some result))))"
| "merge_loop lib scale d [] respect_visibility skip_layer bb result = ([], Inr result)"
| "merge_loop lib scale d (None # ls) respect_visibility skip_layer bb result =
     merge_loop lib scale d ls respect_visibility skip_layer bb result"
| "merge_loop lib scale d (Some l # ls) respect_visibility skip_layer bb result =
     (case skip_checks scale d respect_visibility skip_layer l of
        Inl e \<Rightarrow> ([], Inl e)
      | Inr True \<Rightarrow> merge_loop lib scale d ls respect_visibility skip_layer bb result
      | Inr False \<Rightarrow>
          (case (if is_group (node l)
                 then merge_layers lib scale d (map Some (layers l)) respect_visibility
                        skip_layer None
                 else ([], as_PIL lib d l)) of
             (dg1, Inl e) \<Rightarrow> (dg1, Inl e)
           | (dg1, Inr raw) \<Rightarrow>
               (case compose_layer lib scale d bb result l raw of
                  (dg2, Inl e) \<Rightarrow> (dg1 @ dg2, Inl e)
                | (dg2, Inr result') \<Rightarrow>
                    (case merge_loop lib scale d ls respect_visibility skip_layer bb result' of
                       (dg3, r) \<Rightarrow> (dg1 @ dg2 @ dg3, r)))))"
  by pat_completeness auto
termination
  by (relation "measure (\<lambda>a. case a of
        Inl (lib, scale, d, ls, rest) \<Rightarrow> 2 * weight ls + 1
      | Inr (lib, scale, d, ls, rest) \<Rightarrow> 2 * weight ls)")
    (auto simp: weight_rev weight_Cons_None weight_Cons_Some tsize_pos weight_children_less)

section \<open>Reference definitions for the claims\<close>

text \<open>The indices of a layer and of its ancestors, from the layer up to the root.\<close>

fun chain :: "node \<Rightarrow> nat list" where
  "chain RootGroup = []"
| "chain (RawLayer p i c) = i # chain p"


text \<open>
  The boxes that the claim about \<open>combined_bbox\<close> lets through: those that are not
  \<open>None\<close> and have positive width and positive height.
\<close>

definition kept :: "int BBox option list \<Rightarrow> int BBox list" where
  "kept bs =
     map the
       (filter (\<lambda>b. case b of None \<Rightarrow> False | Some bb \<Rightarrow> 0 < width bb \<and> 0 < height bb) bs)"

text \<open>
  The anchors as the claim about shape layers describes them: the path points with an
  on-curve selector, each scaled by the document width and height.
\<close>

definition on_curve_points ::
  "(rat \<Rightarrow> int \<Rightarrow> int) \<Rightarrow> psd \<Rightarrow> path_record list \<Rightarrow> (int \<times> int) list" where
  "on_curve_points scale d path =
     map (\<lambda>p. (scale (snd (the (anchor p))) (header_width d),
                scale (fst (the (anchor p))) (header_height d)))
         (filter (\<lambda>p. on_curve (selector p)) path)"

text \<open>
  The order in which the claim about smart objects probes the block identifiers, and the
  first block present in an order.
\<close>

definition probe_order :: "tagged_key list" where
  "probe_order =
     [SMART_OBJECT_PLACED_LAYER_DATA, PLACED_LAYER_DATA, PLACED_LAYER_OBSOLETE1,
      PLACED_LAYER_OBSOLETE2]"

definition first_present :: "(tagged_key \<rightharpoonup> block) \<Rightarrow> tagged_key list \<Rightarrow> block option" where
  "first_present blocks ks =
     (case filter (\<lambda>k. blocks k \<noteq> None) ks of [] \<Rightarrow> None | k # rest \<Rightarrow> blocks k)"

text \<open>The character offset of run \<open>i\<close>: the sum of the lengths of the runs before it.\<close>

definition run_offset :: "int list \<Rightarrow> nat \<Rightarrow> int" where
  "run_offset lens i = sum_list (take i lens)"

section \<open>Example documents\<close>

definition ex_mask_data :: mask_data where
  "ex_mask_data =
     \<lparr>md_left = 0, md_top = 0, md_right = 4, md_bottom = 4, md_background_color = 0,
      md_real_flags = False, md_real_left = 0, md_real_top = 0, md_real_right = 0,
      md_real_bottom = 0\<rparr>"

definition ex_record :: layer_record where
  "ex_record =
     \<lparr>info_name = ''layer'', info_left = 0, info_top = 0, info_right = 10,
      info_bottom = 10, info_visible = True, info_opacity = 255,
      info_blend_mode = NORMAL, info_mask_data = None, info_tagged_blocks = []\<rparr>"

definition ex_psd :: "layer_record list \<Rightarrow> psd" where
  "ex_psd rs =
     \<lparr>header_width = 10, header_height = 10, layer_records = rs, linked_layers = []\<rparr>"

text \<open>Truncation of the exact product, for the examples.\<close>

definition ex_scale :: "rat \<Rightarrow> int \<Rightarrow> int" where
  "ex_scale a n = (if 0 \<le> a * of_int n then \<lfloor>a * of_int n\<rfloor> else \<lceil>a * of_int n\<rceil>)"

definition ex_box :: "int \<Rightarrow> int \<Rightarrow> int \<Rightarrow> int \<Rightarrow> layer_record" where
  "ex_box l t r b = ex_record\<lparr>info_left := l, info_top := t, info_right := r, info_bottom := b\<rparr>"

definition ex_leaf :: "nat \<Rightarrow> cls \<Rightarrow> layer" where
  "ex_leaf i c = Layer (RawLayer RootGroup i c) NoExtra [] []"

definition ex_knot :: "int \<Rightarrow> rat \<Rightarrow> rat \<Rightarrow> path_record" where
  "ex_knot s y x = \<lparr>selector = Some s, anchor = Some (y, x)\<rparr>"

definition ex_path :: "path_record list" where
  "ex_path =
     [\<lparr>selector = Some 6, anchor = None\<rparr>, \<lparr>selector = Some 0, anchor = None\<rparr>,
      ex_knot 1 0 0, ex_knot 2 0 1, ex_knot 4 1 1, ex_knot 5 1 0]"

definition ex_shape_record :: layer_record where
  "ex_shape_record =
     (ex_box 0 0 0 0)\<lparr>info_tagged_blocks := [(VECTOR_MASK_SETTING1, VectorMaskSetting ex_path)]\<rparr>"

definition ex_placed_record :: "(dkey \<times> dval) list \<Rightarrow> layer_record" where
  "ex_placed_record ps =
     ex_record\<lparr>info_tagged_blocks :=
       [(PLACED_LAYER_OBSOLETE1, Items [(ID, Value (Str ''old''))]),
        (PLACED_LAYER_DATA, Items ps)]\<rparr>"

definition ex_engine :: engine_data where
  "ex_engine =
     \<lparr>ed_Text = ''Hello World'',
      ed_FontSet = [EDict [(''Name'', EStr ''Arial'')], EDict [(''Name'', EStr ''Times'')]],
      ed_RunLengthArray = [5, 6],
      ed_RunArray = [[(''Font'', EInt 1), (''FontSize'', EInt 12)], [(''FontSize'', EInt 10)]]\<rparr>"

definition ex_type_layer :: layer where
  "ex_type_layer =
     Layer (RawLayer RootGroup 0 TypeLayer)
       (TextData [(TXT, TextValue (Str ''Hello World'')), (EngineData, EngineDict ex_engine)]) [] []"

text \<open>
  An image library for the examples: an image is the term of the operations that made
  it, so that the result of a merge shows which operations ran, on what and in which
  order. \<open>Raster i m w h\<close> is the raster of layer \<open>i\<close>, of mode \<open>m\<close> and size
  \<open>w\<close> by \<open>h\<close>. \<open>Opacity im op\<close> is what \<open>apply_opacity(im, op)\<close> returns; as
  \<open>pil_support.apply_opacity\<close> does, \<open>sym_apply_opacity\<close> reads the mode of its
  argument first (\<open>None\<close> has none), gives an \<open>RGB\<close> raster an alpha channel, scales
  the alpha of an \<open>RGBA\<close> raster, so that both come back \<open>RGBA\<close>, and raises
  \<open>NotImplementedError\<close> on every other mode.
\<close>

datatype img =
    New int int
  | Raster nat image_mode int int
  | Opacity img int
  | Crop img int int int int
  | Paste img img int int
  | AlphaComposite img img

fun sym_size :: "img \<Rightarrow> int \<times> int" where
  "sym_size (New w h) = (w, h)"
| "sym_size (Raster i m w h) = (w, h)"
| "sym_size (Opacity im op) = sym_size im"
| "sym_size (Crop im a b c d) = (c - a, d - b)"
| "sym_size (Paste dst src x y) = sym_size dst"
| "sym_size (AlphaComposite dst src) = sym_size dst"

fun sym_mode :: "img \<Rightarrow> image_mode" where
  "sym_mode (New w h) = RGBA"
| "sym_mode (Raster i m w h) = m"
| "sym_mode (Opacity im op) = RGBA"
| "sym_mode (Crop im a b c d) = sym_mode im"
| "sym_mode (Paste dst src x y) = sym_mode dst"
| "sym_mode (AlphaComposite dst src) = RGBA"

definition sym_apply_opacity :: "img option \<Rightarrow> int \<Rightarrow> error + img option" where
  "sym_apply_opacity im op =
     (case im of
        None \<Rightarrow> Inl AttributeError
      | Some i \<Rightarrow>
          if sym_mode i = RGB then Inr (Some (Opacity i op))
          else if sym_mode i = RGBA then Inr (Some (Opacity i op))
          else Inl NotImplementedError)"

definition sym_as_PIL :: "(nat \<Rightarrow> image_mode) \<Rightarrow> psd \<Rightarrow> layer \<Rightarrow> error + img option" where
  "sym_as_PIL modes d l =
     (case node l of
        RootGroup \<Rightarrow> Inl TypeError
      | RawLayer p i c \<Rightarrow>
          (case info d (node l) of
             Inl e \<Rightarrow> Inl e
           | Inr r \<Rightarrow>
               Inr (Some (Raster i (modes i) (width (literal_bbox r)) (height (literal_bbox r))))))"

definition sym_lib :: "(nat \<Rightarrow> image_mode) \<Rightarrow> img pil" where
  "sym_lib modes =
     \<lparr>new_rgba = (\<lambda>(w, h). New w h),
      img_size = sym_size,
      img_mode = sym_mode,
      crop = (\<lambda>im (a, b, c, d). Crop im a b c d),
      paste = (\<lambda>dst src (x, y). Paste dst src x y),
      alpha_composite = AlphaComposite,
      apply_opacity = sym_apply_opacity,
      as_PIL = sym_as_PIL modes\<rparr>"

section \<open>Visibility\<close>

lemma visible_in_range:
  "i < length (layer_records d) \<Longrightarrow>
   visible d (RawLayer p i c) = Inr (info_visible (layer_records d ! i))"
  by (simp add: info_def layer_info_def)

lemma visible_global_total:
  "\<forall>j\<in>set (chain n). j < length (layer_records d) \<Longrightarrow> \<exists>g. visible_global d n = Inr g"
proof (induction n)
  case RootGroup
  show ?case by auto
next
  case (RawLayer p i c)
  from RawLayer.prems have i: "i < length (layer_records d)" by simp
  from RawLayer.prems have "\<forall>j\<in>set (chain p). j < length (layer_records d)" by simp
  with RawLayer.IH obtain g where g: "visible_global d p = Inr g" by blast
  from i have "visible d (RawLayer p i c) = Inr (info_visible (layer_records d ! i))"
    by (rule visible_in_range)
  with g show ?case by auto
qed

text \<open>
  C5. For a layer \<open>L\<close> whose own index and whose ancestors' indices address layer
  records, \<open>visible\<close> of \<open>L\<close> and \<open>visible_global\<close> of its parent both return, and
  \<open>visible_global\<close> of \<open>L\<close> returns their conjunction; \<open>visible_global\<close> of the
  synthetic root group is \<open>True\<close>. \<open>visible_global\<close> is a total recursive function
  over the finite parent chain, which ends at the root.
\<close>

theorem visible_global_spec:
  assumes "\<forall>j\<in>set (chain (RawLayer p i c)). j < length (layer_records d)"
  shows "visible_global d RootGroup = Inr True \<and>
         (\<exists>v g. visible d (RawLayer p i c) = Inr v \<and>
                visible_global d (parent (RawLayer p i c)) = Inr g \<and>
                visible_global d (RawLayer p i c) = Inr (v \<and> g))"
proof -
  from assms have i: "i < length (layer_records d)" by simp
  from assms have "\<forall>j\<in>set (chain p). j < length (layer_records d)" by simp
  then obtain g where g: "visible_global d p = Inr g"
    using visible_global_total by blast
  have v: "visible d (RawLayer p i c) = Inr (info_visible (layer_records d ! i))"
    using i by (rule visible_in_range)
  have "visible_global d (RawLayer p i c) = Inr (info_visible (layer_records d ! i) \<and> g)"
    using v g by simp
  with v g show ?thesis by simp
qed

theorem visible_global_spec_witness:
  "visible_global (ex_psd [ex_record, ex_record\<lparr>info_visible := False\<rparr>]) RootGroup = Inr True \<and>
   (\<exists>v g. visible (ex_psd [ex_record, ex_record\<lparr>info_visible := False\<rparr>])
             (RawLayer (RawLayer RootGroup 1 Group) 0 PixelLayer) = Inr v \<and>
          visible_global (ex_psd [ex_record, ex_record\<lparr>info_visible := False\<rparr>])
             (parent (RawLayer (RawLayer RootGroup 1 Group) 0 PixelLayer)) = Inr g \<and>
          visible_global (ex_psd [ex_record, ex_record\<lparr>info_visible := False\<rparr>])
             (RawLayer (RawLayer RootGroup 1 Group) 0 PixelLayer) = Inr (v \<and> g))"
  using visible_global_spec [of "RawLayer RootGroup 1 Group" 0 PixelLayer
      "ex_psd [ex_record, ex_record\<lparr>info_visible := False\<rparr>]"]
  by (simp add: ex_psd_def)

section \<open>Masks\<close>

lemma has_mask_positive_index:
  "0 < i \<Longrightarrow> i < length (layer_records d) \<Longrightarrow>
   has_mask d (RawLayer p i c) = Inr (info_mask_data (layer_records d ! i) \<noteq> None)"
  by (simp add: has_mask_def info_def layer_info_def)

lemma has_mask_root: "has_mask d RootGroup = Inr False"
  by (simp add: has_mask_def)

text \<open>
  C9. The claim: every non-root layer whose record carries a mask sub-record has a mask.
  The layer built on layer record 0 is not the root and its record here carries a mask
  sub-record, yet \<open>has_mask\<close> is \<open>False\<close> and \<open>mask\<close> is \<open>None\<close>: the test
  \<open>self._index and ...\<close> takes index 0 for an absent index.
\<close>

theorem has_mask_index_zero:
  "info (ex_psd [ex_record\<lparr>info_mask_data := Some ex_mask_data\<rparr>])
        (RawLayer RootGroup 0 PixelLayer)
     = Inr (ex_record\<lparr>info_mask_data := Some ex_mask_data\<rparr>) \<and>
   has_mask (ex_psd [ex_record\<lparr>info_mask_data := Some ex_mask_data\<rparr>])
        (RawLayer RootGroup 0 PixelLayer) = Inr False \<and>
   mask (ex_psd [ex_record\<lparr>info_mask_data := Some ex_mask_data\<rparr>])
        (RawLayer RootGroup 0 PixelLayer) = Inr None"
  by (simp add: mask_def has_mask_def info_def layer_info_def ex_psd_def)

section \<open>Bounding boxes of layer lists\<close>

lemma py_min_Min: "xs \<noteq> [] \<Longrightarrow> py_min xs = Inr (Min (set xs))"
  using Min.set_eq_fold [of "hd xs" "tl xs"] by (cases xs) (simp_all add: py_min_def)

lemma py_max_Max: "xs \<noteq> [] \<Longrightarrow> py_max xs = Inr (Max (set xs))"
  using Max.set_eq_fold [of "hd xs" "tl xs"] by (cases xs) (simp_all add: py_max_def)

lemma envelope_eq:
  "ls \<noteq> [] \<Longrightarrow> ts \<noteq> [] \<Longrightarrow> rs \<noteq> [] \<Longrightarrow> bs \<noteq> [] \<Longrightarrow>
   envelope ls ts rs bs = Inr (BBox (Min (set ls)) (Min (set ts)) (Max (set rs)) (Max (set bs)))"
  by (simp add: envelope_def py_min_Min py_max_Max)

lemma surviving_map_Inr: "surviving (map Inr bs) = Inr (kept bs)"
  by (induction bs) (auto simp: kept_def split: option.splits)

lemma combine_map_Inr:
  "combine (map Inr bs) =
     Inr (if kept bs = [] then None
          else Some (BBox (Min (set (map x1 (kept bs)))) (Min (set (map y1 (kept bs))))
                          (Max (set (map x2 (kept bs)))) (Max (set (map y2 (kept bs))))))"
  by (simp add: combine_def surviving_map_Inr envelope_eq)

lemma combine_single:
  "combine [r] = Inr (Some b) \<longleftrightarrow> r = Inr (Some b) \<and> 0 < width b \<and> 0 < height b"
  by (cases b)
    (auto simp: combine_def envelope_def py_min_def py_max_def
      split: sum.splits option.splits if_splits)

lemma group_bbox_combined:
  "is_group n \<Longrightarrow> bbox scale d (Layer n ex ls cs) = combined_bbox scale d (map Some ls)"
  by (simp add: combined_bbox_def bbox_of_def comp_def)

lemma ex_bbox_leaf:
  "i < length rs \<Longrightarrow> c \<noteq> Group \<Longrightarrow> c \<noteq> ShapeLayer \<Longrightarrow>
   bbox sc (ex_psd rs) (ex_leaf i c) = Inr (Some (literal_bbox (rs ! i)))"
  by (simp add: ex_leaf_def visible_layer_bbox_def info_def layer_info_def ex_psd_def)

text \<open>
  C3. Let \<open>bs\<close> be the values of \<open>bbox\<close> over the list \<open>ls\<close> (none of them raises).
  \<open>combined_bbox\<close> keeps the boxes that are not \<open>None\<close> and have positive width and
  height (\<open>kept bs\<close>); it returns \<open>None\<close> when none is kept, and otherwise the box
  of the least \<open>x1\<close>, the least \<open>y1\<close>, the greatest \<open>x2\<close> and the greatest \<open>y2\<close>
  of the kept boxes. \<open>combined_bbox []\<close> is \<open>None\<close>. On a singleton list the result
  is the box \<open>b\<close> exactly when the layer's \<open>bbox\<close> is \<open>b\<close> and \<open>b\<close> has positive width
  and height.
\<close>

theorem combined_bbox_spec:
  assumes "map (bbox_of scale d) ls = map Inr bs"
  shows "combined_bbox scale d ls =
           Inr (if kept bs = [] then None
                else Some (BBox (Min (set (map x1 (kept bs)))) (Min (set (map y1 (kept bs))))
                                (Max (set (map x2 (kept bs)))) (Max (set (map y2 (kept bs)))))) \<and>
         combined_bbox scale d [] = Inr None \<and>
         (\<forall>l b. combined_bbox scale d [l] = Inr (Some b) \<longleftrightarrow>
                  bbox_of scale d l = Inr (Some b) \<and> 0 < width b \<and> 0 < height b)"
  using assms
  by (simp add: combined_bbox_def combine_map_Inr combine_single) (simp add: combine_def)

theorem combined_bbox_spec_witness:
  "combined_bbox ex_scale (ex_psd [ex_box 0 0 10 10, ex_box 5 5 20 8, ex_box 3 3 3 9])
     [Some (ex_leaf 0 PixelLayer), Some (ex_leaf 1 PixelLayer), Some (ex_leaf 2 PixelLayer)]
   = Inr (Some (BBox 0 0 20 10))"
  using combined_bbox_spec [of ex_scale "ex_psd [ex_box 0 0 10 10, ex_box 5 5 20 8, ex_box 3 3 3 9]"
      "[Some (ex_leaf 0 PixelLayer), Some (ex_leaf 1 PixelLayer), Some (ex_leaf 2 PixelLayer)]"
      "[Some (BBox 0 0 10 10), Some (BBox 5 5 20 8), Some (BBox 3 3 3 9)]"]
  by (simp add: bbox_of_def ex_bbox_leaf literal_bbox_def ex_box_def ex_record_def kept_def
      width_def height_def)

section \<open>Bounding boxes of shape layers\<close>

lemma anchor_points_eq:
  "\<forall>p\<in>set path. on_curve (selector p) \<longrightarrow> anchor p \<noteq> None \<Longrightarrow>
   anchor_points scale d path = Inr (on_curve_points scale d path)"
  by (induction path) (auto simp: on_curve_points_def)

lemma anchors_no_mask:
  "info d n = Inr r \<Longrightarrow> vector_mask (dict (info_tagged_blocks r)) = None \<Longrightarrow>
   anchors scale d n = Inr None"
  by (simp add: anchors_def tagged_blocks_def)

lemma anchors_mask:
  "info d n = Inr r \<Longrightarrow>
   vector_mask (dict (info_tagged_blocks r)) = Some (VectorMaskSetting path) \<Longrightarrow>
   \<forall>p\<in>set path. on_curve (selector p) \<longrightarrow> anchor p \<noteq> None \<Longrightarrow>
   anchors scale d n = Inr (Some (on_curve_points scale d path))"
  by (simp add: anchors_def tagged_blocks_def anchor_points_eq)

lemma shape_bbox_sizeless:
  "info d n = Inr r \<Longrightarrow> width (literal_bbox r) = 0 \<or> height (literal_bbox r) = 0 \<Longrightarrow>
   anchors scale d n = Inr a \<Longrightarrow>
   shape_bbox scale d n =
     (case a of
        None \<Rightarrow> Inr (BBox 0 0 0 0)
      | Some ps \<Rightarrow>
          Inr (if length ps < 2 then BBox 0 0 0 0
               else BBox (Min (set (map fst ps))) (Min (set (map snd ps)))
                         (Max (set (map fst ps))) (Max (set (map snd ps)))))"
  by (cases a) (auto simp: shape_bbox_def is_sizeless_def envelope_eq)

lemma bbox_shape_layer:
  "bbox scale d (Layer (RawLayer p i ShapeLayer) ex ls cs) =
     (case shape_bbox scale d (RawLayer p i ShapeLayer) of
        Inl e \<Rightarrow> Inl e
      | Inr b \<Rightarrow> Inr (Some b))"
  by simp

text \<open>
  C6. For a shape layer whose record \<open>r\<close> has a literal box of zero width or zero
  height: when the record has no vector mask block, \<open>bbox\<close> is \<open>(0, 0, 0, 0)\<close>; when
  its vector mask has the path \<open>path\<close> (every on-curve point carrying its anchor), the
  anchors are the points of \<open>path\<close> with selector 1, 2, 4 or 5, each as
  \<open>(int(anchor[1] * width), int(anchor[0] * height))\<close>, and \<open>bbox\<close> is
  \<open>(0, 0, 0, 0)\<close> for fewer than two anchors and otherwise the box of the least and
  greatest \<open>x\<close> and \<open>y\<close> of the anchors.
\<close>

theorem shape_bbox_spec:
  assumes "info d (RawLayer p i ShapeLayer) = Inr r"
    and "width (literal_bbox r) = 0 \<or> height (literal_bbox r) = 0"
  shows "(vector_mask (dict (info_tagged_blocks r)) = None \<longrightarrow>
            bbox scale d (Layer (RawLayer p i ShapeLayer) ex ls cs) = Inr (Some (BBox 0 0 0 0))) \<and>
         (\<forall>path. vector_mask (dict (info_tagged_blocks r)) = Some (VectorMaskSetting path) \<and>
                 (\<forall>q\<in>set path. on_curve (selector q) \<longrightarrow> anchor q \<noteq> None) \<longrightarrow>
            anchors scale d (RawLayer p i ShapeLayer) = Inr (Some (on_curve_points scale d path)) \<and>
            bbox scale d (Layer (RawLayer p i ShapeLayer) ex ls cs) =
              Inr (Some (if length (on_curve_points scale d path) < 2 then BBox 0 0 0 0
                   else BBox (Min (set (map fst (on_curve_points scale d path))))
                             (Min (set (map snd (on_curve_points scale d path))))
                             (Max (set (map fst (on_curve_points scale d path))))
                             (Max (set (map snd (on_curve_points scale d path)))))))"
proof (intro conjI impI allI)
  assume "vector_mask (dict (info_tagged_blocks r)) = None"
  with assms(1) have "anchors scale d (RawLayer p i ShapeLayer) = Inr None"
    by (rule anchors_no_mask)
  with shape_bbox_sizeless [OF assms]
  have "shape_bbox scale d (RawLayer p i ShapeLayer) = Inr (BBox 0 0 0 0)"
    by simp
  then show "bbox scale d (Layer (RawLayer p i ShapeLayer) ex ls cs) = Inr (Some (BBox 0 0 0 0))"
    by (simp add: bbox_shape_layer)
next
  fix path
  assume h: "vector_mask (dict (info_tagged_blocks r)) = Some (VectorMaskSetting path) \<and>
             (\<forall>q\<in>set path. on_curve (selector q) \<longrightarrow> anchor q \<noteq> None)"
  with assms(1)
  show a: "anchors scale d (RawLayer p i ShapeLayer) = Inr (Some (on_curve_points scale d path))"
    by (simp add: anchors_mask)
  from shape_bbox_sizeless [OF assms a]
  have "shape_bbox scale d (RawLayer p i ShapeLayer) =
              Inr (if length (on_curve_points scale d path) < 2 then BBox 0 0 0 0
                   else BBox (Min (set (map fst (on_curve_points scale d path))))
                             (Min (set (map snd (on_curve_points scale d path))))
                             (Max (set (map fst (on_curve_points scale d path))))
                             (Max (set (map snd (on_curve_points scale d path)))))"
    by simp
  then show "bbox scale d (Layer (RawLayer p i ShapeLayer) ex ls cs) =
              Inr (Some (if length (on_curve_points scale d path) < 2 then BBox 0 0 0 0
                   else BBox (Min (set (map fst (on_curve_points scale d path))))
                             (Min (set (map snd (on_curve_points scale d path))))
                             (Max (set (map fst (on_curve_points scale d path))))
                             (Max (set (map snd (on_curve_points scale d path))))))"
    by (simp only: bbox_shape_layer sum.case)
qed

theorem shape_bbox_spec_witness:
  "anchors ex_scale (ex_psd [ex_shape_record]) (RawLayer RootGroup 0 ShapeLayer)
     = Inr (Some [(0, 0), (10, 0), (10, 10), (0, 10)]) \<and>
   bbox ex_scale (ex_psd [ex_shape_record]) (Layer (RawLayer RootGroup 0 ShapeLayer) NoExtra [] [])
     = Inr (Some (BBox 0 0 10 10))"
  using shape_bbox_spec [of "ex_psd [ex_shape_record]" RootGroup 0
      ex_shape_record ex_scale NoExtra "[]" "[]"]
  by (simp add: info_def layer_info_def ex_psd_def ex_shape_record_def ex_box_def ex_record_def
      literal_bbox_def width_def height_def vector_mask_def dict_def ex_path_def ex_knot_def
      on_curve_points_def on_curve_def ex_scale_def)

section \<open>Smart object layers and their placed-layer block\<close>

lemma placed_layer_block_probe:
  "tagged_blocks d n = Inr blocks \<Longrightarrow>
   placed_layer_block d n = Inr (first_present blocks probe_order)"
  by (auto simp: placed_layer_block_def first_present_def probe_order_def split: option.splits)

lemma smart_object_absent_block:
  assumes "tagged_blocks d (RawLayer p i SmartObjectLayer) = Inr blocks"
    and "first_present blocks probe_order = None"
  shows "SmartObjectLayer_init d p i
           = Inr (Layer (RawLayer p i SmartObjectLayer) (Placed None) [] []) \<and>
         unique_id (Layer (RawLayer p i SmartObjectLayer) (Placed None) [] []) = Inr None \<and>
         linked_data d (Layer (RawLayer p i SmartObjectLayer) (Placed None) [] []) = Inr None \<and>
         transform_bbox d (RawLayer p i SmartObjectLayer) = Inr None \<and>
         placed_layer_size d (RawLayer p i SmartObjectLayer) = Inr None"
  using placed_layer_block_probe [OF assms(1)] assms(2)
  by (simp add: SmartObjectLayer_init_def unique_id_def linked_data_def transform_bbox_def
      placed_layer_size_def)

text \<open>
  C7. The claim: when the placed-layer block is absent, or the needed field inside it is
  absent, \<open>unique_id()\<close>, \<open>transform_bbox\<close>, \<open>placed_layer_size\<close> and \<open>linked_data()\<close>
  return \<open>None\<close> and do not raise. Without a block they do (\<open>smart_object_absent_block\<close>),
  and so do \<open>transform_bbox\<close> and \<open>placed_layer_size\<close> on a transform or size field
  that is empty. Here the block \<open>PLACED_LAYER_DATA\<close> is present and holds neither the
  identifier nor the transform nor the size field: \<open>unique_id()\<close> and \<open>linked_data()\<close>
  raise \<open>AttributeError\<close> (\<open>self._placed.get(ID)\<close> is \<open>None\<close>, which has no
  \<open>value\<close>), and \<open>transform_bbox\<close> and \<open>placed_layer_size\<close> raise \<open>KeyError\<close>.
\<close>

theorem smart_object_missing_field_raises:
  "placed_layer_block (ex_psd [ex_placed_record [(OtherKey ''name'', Value (Str ''a''))]])
     (RawLayer RootGroup 0 SmartObjectLayer)
     = Inr (Some (Items [(OtherKey ''name'', Value (Str ''a''))])) \<and>
   dict [(OtherKey ''name'', Value (Str ''a''))] ID = None \<and>
   SmartObjectLayer_init (ex_psd [ex_placed_record [(OtherKey ''name'', Value (Str ''a''))]])
     RootGroup 0
     = Inr (Layer (RawLayer RootGroup 0 SmartObjectLayer)
              (Placed (Some [(OtherKey ''name'', Value (Str ''a''))])) [] []) \<and>
   unique_id (Layer (RawLayer RootGroup 0 SmartObjectLayer)
              (Placed (Some [(OtherKey ''name'', Value (Str ''a''))])) [] [])
     = Inl AttributeError \<and>
   linked_data (ex_psd [ex_placed_record [(OtherKey ''name'', Value (Str ''a''))]])
     (Layer (RawLayer RootGroup 0 SmartObjectLayer)
              (Placed (Some [(OtherKey ''name'', Value (Str ''a''))])) [] [])
     = Inl AttributeError \<and>
   transform_bbox (ex_psd [ex_placed_record [(OtherKey ''name'', Value (Str ''a''))]])
     (RawLayer RootGroup 0 SmartObjectLayer) = Inl KeyError \<and>
   placed_layer_size (ex_psd [ex_placed_record [(OtherKey ''name'', Value (Str ''a''))]])
     (RawLayer RootGroup 0 SmartObjectLayer) = Inl KeyError \<and>
   transform_bbox (ex_psd [ex_placed_record [(TRANSFORM, ListV []), (SIZE, Descriptor [])]])
     (RawLayer RootGroup 0 SmartObjectLayer) = Inr None \<and>
   placed_layer_size (ex_psd [ex_placed_record [(TRANSFORM, ListV []), (SIZE, Descriptor [])]])
     (RawLayer RootGroup 0 SmartObjectLayer) = Inr None"
  by (simp add: placed_layer_block_def tagged_blocks_def info_def layer_info_def ex_psd_def
      ex_record_def ex_placed_record_def dict_def SmartObjectLayer_init_def unique_id_def
      linked_data_def transform_bbox_def placed_layer_size_def)

section \<open>Style spans of type layers\<close>

lemma font_index_Text [simp]: "font_index ((''Text'', v) # run) = font_index run"
  by (simp add: font_index_def)

lemma spans_loop_length:
  "spans_loop text fs zs start = Inr spans \<Longrightarrow> length spans = length zs"
proof (induction zs arbitrary: start spans)
  case Nil
  then show ?case by simp
next
  case (Cons z zs)
  obtain run sz where z: "z = (run, sz)" by (cases z)
  from Cons.prems z obtain rest where
    "spans_loop text fs zs (start + sz) = Inr rest" "length spans = Suc (length rest)"
    by (auto split: sum.splits)
  with Cons.IH show ?case by simp
qed

lemma spans_loop_nth:
  "spans_loop text fs zs start = Inr spans \<Longrightarrow> i < length zs \<Longrightarrow>
   \<exists>k font. font_index (fst (zs ! i)) = Inr k \<and> py_getitem fs k = Inr font \<and>
     spans ! i =
       (''Font'', font) #
       (''Text'', EStr (py_slice text (start + run_offset (map snd zs) i)
                          (start + run_offset (map snd zs) i + snd (zs ! i)))) #
       fst (zs ! i)"
proof (induction zs arbitrary: start spans i)
  case Nil
  then show ?case by simp
next
  case (Cons z zs)
  obtain run sz where z: "z = (run, sz)" by (cases z)
  from Cons.prems(1) z obtain k font rest where
    k: "font_index run = Inr k" and f: "py_getitem fs k = Inr font"
    and rest: "spans_loop text fs zs (start + sz) = Inr rest"
    and spans: "spans = ((''Font'', font) #
        (''Text'', EStr (py_slice text start (start + sz))) # run) # rest"
    by (auto split: sum.splits)
  show ?case
  proof (cases i)
    case 0
    with k f spans z show ?thesis by (simp add: run_offset_def)
  next
    case (Suc j)
    with Cons.prems(2) have j: "j < length zs" by simp
    from Cons.IH [OF rest j] Suc spans z show ?thesis
      by (simp add: run_offset_def add.assoc)
  qed
qed

lemma spans_loop_total:
  "\<forall>z\<in>set zs. \<exists>k font. font_index (fst z) = Inr k \<and> py_getitem fs k = Inr font \<Longrightarrow>
   \<exists>spans. spans_loop text fs zs start = Inr spans"
proof (induction zs arbitrary: start)
  case Nil
  then show ?case by simp
next
  case (Cons z zs)
  obtain run sz where z: "z = (run, sz)" by (cases z)
  from Cons.prems z obtain k font where "font_index run = Inr k" "py_getitem fs k = Inr font"
    by auto
  moreover from Cons.prems Cons.IH obtain rest where
    "spans_loop text fs zs (start + sz) = Inr rest" by auto
  ultimately show ?case using z by simp
qed

lemma py_slice_nonneg:
  "0 \<le> a \<Longrightarrow> 0 \<le> n \<Longrightarrow> py_slice xs a (a + n) = take (nat n) (drop (nat a) xs)"
  by (auto simp: py_slice_def slice_bound_def min_def nat_add_distrib)


lemma run_offset_zip:
  "i < length (zip runs lens) \<Longrightarrow> run_offset (map snd (zip runs lens)) i = run_offset lens i"
  by (simp add: run_offset_def map_snd_zip_take min_def)

text \<open>
  C10. For a type layer with engine data \<open>e\<close> in which every run's font index is an
  integer (or absent) and addresses the font set, \<open>style_spans()\<close> returns one record
  per pair of \<open>zip(RunArray, RunLengthArray)\<close>, in run order. The record of run \<open>i\<close>
  carries under \<open>Text\<close> the slice of the full text from the running offset (the sum of
  the lengths of the runs before \<open>i\<close>) to the offset plus the run's length, which for
  a non-negative offset and length is the \<open>length\<close> characters after the first
  \<open>offset\<close>; under \<open>Font\<close> the element of the font set at the run's font index, which
  is 0 when the style sheet has no font entry; and the run's other entries unchanged.
\<close>

theorem style_spans_spec:
  assumes e: "engine_data l = Inr e"
    and fonts: "\<forall>z\<in>set (zip (ed_RunArray e) (ed_RunLengthArray e)).
                  \<exists>k font. font_index (fst z) = Inr k \<and> py_getitem (ed_FontSet e) k = Inr font"
  shows "\<exists>spans. style_spans l = Inr spans \<and>
           length spans = min (length (ed_RunArray e)) (length (ed_RunLengthArray e)) \<and>
           (\<forall>i<length spans.
              map_of (spans ! i) ''Text'' =
                Some (EStr (py_slice (ed_Text e) (run_offset (ed_RunLengthArray e) i)
                        (run_offset (ed_RunLengthArray e) i + ed_RunLengthArray e ! i))) \<and>
              (\<exists>k font. font_index (ed_RunArray e ! i) = Inr k \<and>
                 (map_of (ed_RunArray e ! i) ''Font'' = None \<longrightarrow> k = 0) \<and>
                 py_getitem (ed_FontSet e) k = Inr font \<and>
                 map_of (spans ! i) ''Font'' = Some font) \<and>
              (\<forall>key. key \<noteq> ''Text'' \<and> key \<noteq> ''Font'' \<longrightarrow>
                 map_of (spans ! i) key = map_of (ed_RunArray e ! i) key) \<and>
              (0 \<le> run_offset (ed_RunLengthArray e) i \<and> 0 \<le> ed_RunLengthArray e ! i \<longrightarrow>
                 py_slice (ed_Text e) (run_offset (ed_RunLengthArray e) i)
                     (run_offset (ed_RunLengthArray e) i + ed_RunLengthArray e ! i) =
                 take (nat (ed_RunLengthArray e ! i))
                   (drop (nat (run_offset (ed_RunLengthArray e) i)) (ed_Text e))))"
proof -
  let ?zs = "zip (ed_RunArray e) (ed_RunLengthArray e)"
  from spans_loop_total [OF fonts] obtain spans where
    loop: "spans_loop (ed_Text e) (ed_FontSet e) ?zs 0 = Inr spans" by blast
  with e have ss: "style_spans l = Inr spans" by (simp add: style_spans_def)
  from spans_loop_length [OF loop] have len: "length spans = length ?zs" .
  have each: "map_of (spans ! i) ''Text'' =
                Some (EStr (py_slice (ed_Text e) (run_offset (ed_RunLengthArray e) i)
                        (run_offset (ed_RunLengthArray e) i + ed_RunLengthArray e ! i))) \<and>
              (\<exists>k font. font_index (ed_RunArray e ! i) = Inr k \<and>
                 (map_of (ed_RunArray e ! i) ''Font'' = None \<longrightarrow> k = 0) \<and>
                 py_getitem (ed_FontSet e) k = Inr font \<and>
                 map_of (spans ! i) ''Font'' = Some font) \<and>
              (\<forall>key. key \<noteq> ''Text'' \<and> key \<noteq> ''Font'' \<longrightarrow>
                 map_of (spans ! i) key = map_of (ed_RunArray e ! i) key) \<and>
              (0 \<le> run_offset (ed_RunLengthArray e) i \<and> 0 \<le> ed_RunLengthArray e ! i \<longrightarrow>
                 py_slice (ed_Text e) (run_offset (ed_RunLengthArray e) i)
                     (run_offset (ed_RunLengthArray e) i + ed_RunLengthArray e ! i) =
                 take (nat (ed_RunLengthArray e ! i))
                   (drop (nat (run_offset (ed_RunLengthArray e) i)) (ed_Text e)))"
    if i: "i < length spans" for i
  proof -
    from i len have iz: "i < length ?zs" by simp
    from spans_loop_nth [OF loop iz] obtain k font where
      k: "font_index (fst (?zs ! i)) = Inr k" and f: "py_getitem (ed_FontSet e) k = Inr font"
      and sp: "spans ! i =
         (''Font'', font) #
         (''Text'', EStr (py_slice (ed_Text e) (0 + run_offset (map snd ?zs) i)
                            (0 + run_offset (map snd ?zs) i + snd (?zs ! i)))) #
         fst (?zs ! i)"
      by blast
    from iz have fst_i: "fst (?zs ! i) = ed_RunArray e ! i"
      and snd_i: "snd (?zs ! i) = ed_RunLengthArray e ! i" by simp_all
    have off: "run_offset (map snd ?zs) i = run_offset (ed_RunLengthArray e) i"
      using iz by (rule run_offset_zip)
    have k0: "map_of (ed_RunArray e ! i) ''Font'' = None \<longrightarrow> k = 0"
      using k fst_i by (auto simp: font_index_def)
    show ?thesis
      using k f sp fst_i snd_i off k0 by (auto simp: py_slice_nonneg)
  qed
  from ss len each show ?thesis by auto
qed

theorem style_spans_spec_witness:
  "style_spans ex_type_layer =
     Inr [[(''Font'', EDict [(''Name'', EStr ''Times'')]), (''Text'', EStr ''Hello''),
           (''Font'', EInt 1), (''FontSize'', EInt 12)],
          [(''Font'', EDict [(''Name'', EStr ''Arial'')]), (''Text'', EStr '' World''),
           (''FontSize'', EInt 10)]]"
  using style_spans_spec [of ex_type_layer ex_engine]
  by (simp add: style_spans_def engine_data_def ex_type_layer_def ex_engine_def dict_def
      font_index_def py_getitem_def py_slice_def slice_bound_def)


section \<open>Unknown kinds in tree assembly\<close>

lemma make_layer_unknown:
  "k \<notin> {''group'', ''adjustment'', ''type'', ''shape'', ''pixel'', ''smartobject''} \<Longrightarrow>
   make_layer d g (Desc i k ls cs) = ([UnknownLayerType k], Inl UnboundLocalError)"
  by simp

text \<open>
  C1. The claim: a record of unknown kind is diagnosed and skipped, and the assembly of
  the other records completes. Here the kind \<open>artboard\<close> is diagnosed, and then
  \<open>make_layer\<close> raises \<open>UnboundLocalError\<close> at \<open>return child\<close>; the exception leaves
  \<open>fill_group\<close> and \<open>PSDImage.__init__\<close>, so no tree is built, although the same
  document without that record assembles.
\<close>

theorem unknown_kind_aborts_assembly:
  "make_layer (ex_psd [ex_record, ex_record]) RootGroup (Desc 1 ''artboard'' [] [])
     = ([UnknownLayerType ''artboard''], Inl UnboundLocalError) \<and>
   PSDImage_init (ex_psd [ex_record, ex_record])
     [Desc 1 ''artboard'' [] [], Desc 0 ''pixel'' [] []]
     = ([UnknownLayerType ''artboard''], Inl UnboundLocalError) \<and>
   PSDImage_init (ex_psd [ex_record, ex_record]) [Desc 0 ''pixel'' [] []]
     = ([], Inr (Layer RootGroup NoExtra [Layer (RawLayer RootGroup 0 PixelLayer) NoExtra [] []] []))"
  by (simp add: PSDImage_init_def)

section \<open>The compositor\<close>

lemma ex_visible: "i < length rs \<Longrightarrow> visible (ex_psd rs) (RawLayer p i c) = Inr (info_visible (rs ! i))"
  by (simp add: info_def layer_info_def ex_psd_def)




lemma crop_overflow_clamp:
  "crop_overflow lib im x y =
     ((if x < 0 \<or> y < 0 then [CroppingOverflow (max (- x) 0) (max (- y) 0)] else []),
      (if x < 0 \<or> y < 0
       then crop lib im (max (- x) 0, max (- y) 0, fst (img_size lib im), snd (img_size lib im))
       else im),
      max x 0, max y 0)"
  by (auto simp: crop_overflow_def min_def max_def)

text \<open>
  C4. For a layer with bbox \<open>b\<close>, composited onto the canvas of box \<open>bb\<close> with the
  raster \<open>im\<close> (after \<open>apply_opacity\<close>), let \<open>x = b.x1 - bb.x1\<close> and
  \<open>y = b.y1 - bb.y1\<close>. When \<open>x\<close> or \<open>y\<close> is negative, the raster is cropped to
  \<open>(max(-x, 0), max(-y, 0), w, h)\<close>, which removes the part above and left of the
  canvas and nothing at the bottom or right, and it is blended at
  \<open>(max(x, 0), max(y, 0))\<close>. Otherwise the raster is blended uncropped at \<open>(x, y)\<close>,
  whatever its size. An overflow past the right or bottom edge only adds the diagnostic
  \<open>Cropping\<close>. The witness is the spec's example: a layer at \<open>(-5, -5, 5, 5)\<close> on the
  canvas \<open>(0, 0, 10, 10)\<close>.
\<close>

theorem compose_layer_placement:
  assumes "opacity d (node l) = Inr op"
    and "apply_opacity lib raw op = Inr (Some im)"
    and "bbox scale d l = Inr (Some b)"
    and "blend_mode d (node l) = Inr bm"
  shows "compose_layer lib scale d bb result l raw =
           ((if x1 b - x1 bb < 0 \<or> y1 b - y1 bb < 0
             then [CroppingOverflow (max (- (x1 b - x1 bb)) 0) (max (- (y1 b - y1 bb)) 0)]
             else []) @
            (if fst (img_size lib im) + max (x1 b - x1 bb) 0 > width bb \<or>
                snd (img_size lib im) + max (y1 b - y1 bb) 0 > height bb
             then [Cropping] else []) @
            fst (blend lib bm result
                   (if x1 b - x1 bb < 0 \<or> y1 b - y1 bb < 0
                    then crop lib im (max (- (x1 b - x1 bb)) 0, max (- (y1 b - y1 bb)) 0,
                           fst (img_size lib im), snd (img_size lib im))
                    else im)
                   (max (x1 b - x1 bb) 0, max (y1 b - y1 bb) 0)),
            Inr (snd (blend lib bm result
                   (if x1 b - x1 bb < 0 \<or> y1 b - y1 bb < 0
                    then crop lib im (max (- (x1 b - x1 bb)) 0, max (- (y1 b - y1 bb)) 0,
                           fst (img_size lib im), snd (img_size lib im))
                    else im)
                   (max (x1 b - x1 bb) 0, max (y1 b - y1 bb) 0))))"
  using assms by (simp add: compose_layer_def crop_overflow_clamp)

theorem compose_layer_placement_witness:
  "compose_layer (sym_lib (\<lambda>i. RGBA)) ex_scale (ex_psd [ex_box (- 5) (- 5) 5 5])
     (BBox 0 0 10 10) (New 10 10) (ex_leaf 0 PixelLayer) (Some (Raster 0 RGBA 10 10))
   = ([CroppingOverflow 5 5],
      Inr (AlphaComposite (New 10 10)
             (Paste (New 10 10) (Crop (Opacity (Raster 0 RGBA 10 10) 255) 5 5 10 10) 0 0))) \<and>
   merge_layers (sym_lib (\<lambda>i. RGBA)) ex_scale (ex_psd [ex_box (- 5) (- 5) 5 5])
     [Some (ex_leaf 0 PixelLayer)] True (\<lambda>l. False) (Some (BBox 0 0 10 10))
   = ([CroppingOverflow 5 5],
      Inr (Some (AlphaComposite (New 10 10)
             (Paste (New 10 10) (Crop (Opacity (Raster 0 RGBA 10 10) 255) 5 5 10 10) 0 0)))) \<and>
   compose_layer (sym_lib (\<lambda>i. RGBA)) ex_scale (ex_psd [ex_box 5 5 15 15])
     (BBox 0 0 10 10) (New 10 10) (ex_leaf 0 PixelLayer) (Some (Raster 0 RGBA 10 10))
   = ([Cropping],
      Inr (AlphaComposite (New 10 10)
             (Paste (New 10 10) (Opacity (Raster 0 RGBA 10 10) 255) 5 5)))"
  using compose_layer_placement [of "ex_psd [ex_box (- 5) (- 5) 5 5]" "ex_leaf 0 PixelLayer" 255
      "sym_lib (\<lambda>i. RGBA)" "Some (Raster 0 RGBA 10 10)" "Opacity (Raster 0 RGBA 10 10) 255"
      ex_scale "BBox (- 5) (- 5) 5 5" NORMAL "BBox 0 0 10 10" "New 10 10"]
    compose_layer_placement [of "ex_psd [ex_box 5 5 15 15]" "ex_leaf 0 PixelLayer" 255
      "sym_lib (\<lambda>i. RGBA)" "Some (Raster 0 RGBA 10 10)" "Opacity (Raster 0 RGBA 10 10) 255"
      ex_scale "BBox 5 5 15 15" NORMAL "BBox 0 0 10 10" "New 10 10"]
  by (simp add: skip_checks_def ex_bbox_leaf ex_visible literal_bbox_def ex_box_def ex_record_def
      width_def height_def opacity_def blend_mode_def info_def layer_info_def
      ex_psd_def blend_def sym_lib_def sym_as_PIL_def sym_apply_opacity_def ex_leaf_def
      visible_layer_bbox_def)


lemma blend_unsupported_mode:
  "img_mode lib im \<noteq> RGBA \<Longrightarrow> img_mode lib im \<noteq> RGB \<Longrightarrow>
   blend lib NORMAL result im pos = ([UnsupportedImageMode (img_mode lib im)], result)"
  by (simp add: blend_def)

lemma merge_loop_apply_opacity_raises:
  assumes "skip_checks scale d rv skip l = Inr False"
    and "(if is_group (node l)
          then merge_layers lib scale d (map Some (layers l)) rv skip None
          else ([], as_PIL lib d l)) = (dg1, Inr raw)"
    and "opacity d (node l) = Inr op"
    and "apply_opacity lib raw op = Inl e"
  shows "merge_loop lib scale d (Some l # ls) rv skip bb result = (dg1, Inl e)"
  using assms by (simp add: compose_layer_def)

text \<open>
  C8. The claim: a raster of an unsupported pixel format is diagnosed, the layer
  contributes nothing and the merge goes on; a raster without an alpha channel is pasted
  directly. The last \<open>if\<close> of the loop body does that for the raster it is given (the
  first and last equations here). But the raster it is given comes out of
  \<open>apply_opacity\<close>, called before it: on the raster of mode \<open>L\<close> of the bottom layer
  \<open>apply_opacity\<close> raises \<open>NotImplementedError\<close>, which ends the merge, with nothing
  logged and the layer above never drawn; and an \<open>RGB\<close> raster comes back \<open>RGBA\<close> and
  is alpha-composited, not pasted.
\<close>

theorem unsupported_mode_aborts_merge:
  "blend (sym_lib (\<lambda>i. OtherImageMode ''L'')) NORMAL (New 10 10)
     (Raster 0 (OtherImageMode ''L'') 10 10) (0, 0)
     = ([UnsupportedImageMode (OtherImageMode ''L'')], New 10 10) \<and>
   merge_layers (sym_lib (\<lambda>i. if i = 0 then OtherImageMode ''L'' else RGBA)) ex_scale
     (ex_psd [ex_record, ex_record])
     [Some (ex_leaf 1 PixelLayer), Some (ex_leaf 0 PixelLayer)] True (\<lambda>l. False) None
     = ([], Inl NotImplementedError) \<and>
   merge_layers (sym_lib (\<lambda>i. RGB)) ex_scale (ex_psd [ex_record])
     [Some (ex_leaf 0 PixelLayer)] True (\<lambda>l. False) None
     = ([], Inr (Some (AlphaComposite (New 10 10)
                  (Paste (New 10 10) (Opacity (Raster 0 RGB 10 10) 255) 0 0)))) \<and>
   blend (sym_lib (\<lambda>i. RGB)) NORMAL (New 10 10) (Raster 0 RGB 10 10) (0, 0)
     = ([], Paste (New 10 10) (Raster 0 RGB 10 10) 0 0)"
  by (simp add: skip_checks_def ex_bbox_leaf ex_visible literal_bbox_def ex_record_def
      width_def height_def opacity_def blend_mode_def info_def layer_info_def compose_layer_def
      ex_psd_def blend_def sym_lib_def sym_as_PIL_def sym_apply_opacity_def ex_leaf_def
      visible_layer_bbox_def crop_overflow_def combined_bbox_def bbox_of_def combine_def envelope_def py_min_def
      py_max_def)

end
